theory Spec2Isabelle
  imports Complex_Main
begin

section \<open>JavaScript values and the operators the component applies to them\<close>

text \<open>
  The waitlist component (\<^verbatim>\<open>apps/web/app/(waitlist)/_components/waitlist.tsx\<close>) reads
  untyped JSON from \<^verbatim>\<open>localStorage\<close> and from two HTTP endpoints, so its values are
  modelled as untyped JavaScript values. A number is a double: \<^verbatim>\<open>NaN\<close>, an infinity,
  \<open>Fin n\<close> for the double whose value is the integer \<open>n\<close>, or \<open>Frac q\<close> for a
  double whose value \<open>q\<close> is not an integer.
\<close>

datatype jsnum = NaN | PosInf | NegInf | Fin int | Frac rat

datatype jsval =
    JUndefined
  | JNull
  | JBool bool
  | JNum jsnum
  | JStr string
  | JArr "jsval list"
  | JObj "(string \<times> jsval) list"

text \<open>
  A thrown value: an instance of \<^verbatim>\<open>Error\<close> with its \<^verbatim>\<open>message\<close>, or anything else.
  Only \<^verbatim>\<open>onError\<close> tells the two apart.
\<close>

datatype thrown = Error string | NonError

text \<open>
  What the source calls but does not define is a parameter of the model: the JSON
  codec (\<open>JSON_parse\<close> returns the message of its \<^verbatim>\<open>SyntaxError\<close> on the left), the
  conversion of a string to a number and of a number to a string, the rounded result of
  an addition or subtraction that is not exact, the message of a \<^verbatim>\<open>TypeError\<close> that
  the platform raises, and whether \<^verbatim>\<open>useMutation\<close> reports an error thrown by
  \<^verbatim>\<open>onSuccess\<close> to \<^verbatim>\<open>onError\<close>.
\<close>

record platform =
  JSON_parse :: "string \<Rightarrow> string + jsval"
  JSON_stringify :: "jsval \<Rightarrow> string"
  StringToNumber :: "string \<Rightarrow> jsnum"
  NumberToString :: "jsnum \<Rightarrow> string"
  DoubleAdd :: "jsnum \<Rightarrow> jsnum \<Rightarrow> jsnum"
  DoubleSub :: "jsnum \<Rightarrow> jsnum \<Rightarrow> jsnum"
  TypeError_message :: string
  onSuccess_error_to_onError :: bool

text \<open>
  Every integer of magnitude at most \<open>2^53\<close> is a double, so a sum of two such
  integers that stays in this range is exact. Any other sum is rounded, and the rounded
  value is the platform's: \<open>2^53 + 1\<close> is \<open>2^53\<close> again.
\<close>

definition exact_integer :: "int \<Rightarrow> bool" where
  "exact_integer n = (\<bar>n\<bar> \<le> 2 ^ 53)"

fun num_add :: "platform \<Rightarrow> jsnum \<Rightarrow> jsnum \<Rightarrow> jsnum" where
  "num_add P NaN y = NaN"
| "num_add P x NaN = NaN"
| "num_add P (Fin a) (Fin b) =
     (if exact_integer a \<and> exact_integer b \<and> exact_integer (a + b) then Fin (a + b)
      else DoubleAdd P (Fin a) (Fin b))"
| "num_add P x y = DoubleAdd P x y"

text \<open>
  The one subtraction of the source, \<^verbatim>\<open>Date.now() - timestamp\<close>, is only compared
  with \<open>CACHE_DURATION\<close>. On integers the difference is kept exact: rounding to the
  nearest double is monotone and leaves the integers up to \<open>2^53\<close> fixed, so the rounded
  difference exceeds \<open>CACHE_DURATION\<close> exactly when the exact one does. With a
  fraction or an infinity the difference is the platform's.
\<close>

fun num_sub :: "platform \<Rightarrow> jsnum \<Rightarrow> jsnum \<Rightarrow> jsnum" where
  "num_sub P NaN y = NaN"
| "num_sub P x NaN = NaN"
| "num_sub P (Fin a) (Fin b) = Fin (a - b)"
| "num_sub P x y = DoubleSub P x y"

text \<open>Comparison of doubles is exact, and every comparison with \<^verbatim>\<open>NaN\<close> is false.\<close>

fun num_gt :: "jsnum \<Rightarrow> jsnum \<Rightarrow> bool" where
  "num_gt NaN y = False"
| "num_gt x NaN = False"
| "num_gt NegInf y = False"
| "num_gt x NegInf = True"
| "num_gt x PosInf = False"
| "num_gt PosInf y = True"
| "num_gt (Fin a) (Fin b) = (a > b)"
| "num_gt (Fin a) (Frac q) = (of_int a > q)"
| "num_gt (Frac p) (Fin b) = (p > of_int b)"
| "num_gt (Frac p) (Frac q) = (p > q)"

fun truthy :: "jsval \<Rightarrow> bool" where
  "truthy JUndefined = False"
| "truthy JNull = False"
| "truthy (JBool b) = b"
| "truthy (JNum NaN) = False"
| "truthy (JNum (Fin n)) = (n \<noteq> 0)"
| "truthy (JNum (Frac q)) = (q \<noteq> 0)"
| "truthy (JStr s) = (s \<noteq> [])"
| "truthy _ = True"

fun nullish :: "jsval \<Rightarrow> bool" where
  "nullish JUndefined = True"
| "nullish JNull = True"
| "nullish _ = False"

text \<open>
  Conversion to a string, \<open>None\<close> when it throws a \<^verbatim>\<open>TypeError\<close>. Arrays and
  objects are born from JSON here, so no property of theirs is a function. An object
  converts through the inherited \<^verbatim>\<open>toString\<close> unless a property of its own named
  \<^verbatim>\<open>toString\<close> shadows it; then no method yields a primitive and the conversion
  throws. An array converts through \<^verbatim>\<open>join\<close>, which writes \<^verbatim>\<open>null\<close> and
  \<^verbatim>\<open>undefined\<close> as the empty string and converts every other element.
\<close>

fun ToString :: "platform \<Rightarrow> jsval \<Rightarrow> string option"
  and Array_join :: "platform \<Rightarrow> jsval list \<Rightarrow> string option" where
  "ToString P JUndefined = Some ''undefined''"
| "ToString P JNull = Some ''null''"
| "ToString P (JBool b) = Some (if b then ''true'' else ''false'')"
| "ToString P (JNum n) = Some (NumberToString P n)"
| "ToString P (JStr s) = Some s"
| "ToString P (JArr xs) = Array_join P xs"
| "ToString P (JObj kvs) =
     (if map_of kvs ''toString'' = None then Some ''[object Object]'' else None)"
| "Array_join P [] = Some []"
| "Array_join P [x] = (if nullish x then Some [] else ToString P x)"
| "Array_join P (x # y # ys) =
     (case (if nullish x then Some [] else ToString P x) of
        None \<Rightarrow> None
      | Some s \<Rightarrow>
          (case Array_join P (y # ys) of
             None \<Rightarrow> None
           | Some r \<Rightarrow> Some (s @ '','' @ r)))"

fun ToPrimitive :: "platform \<Rightarrow> jsval \<Rightarrow> thrown + jsval" where
  "ToPrimitive P (JArr xs) =
     (case ToString P (JArr xs) of
        None \<Rightarrow> Inl (Error (TypeError_message P))
      | Some s \<Rightarrow> Inr (JStr s))"
| "ToPrimitive P (JObj kvs) =
     (case ToString P (JObj kvs) of
        None \<Rightarrow> Inl (Error (TypeError_message P))
      | Some s \<Rightarrow> Inr (JStr s))"
| "ToPrimitive P v = Inr v"

fun ToNumber :: "platform \<Rightarrow> jsval \<Rightarrow> thrown + jsnum" where
  "ToNumber P JUndefined = Inr NaN"
| "ToNumber P JNull = Inr (Fin 0)"
| "ToNumber P (JBool b) = Inr (Fin (if b then 1 else 0))"
| "ToNumber P (JNum n) = Inr n"
| "ToNumber P (JStr s) = Inr (StringToNumber P s)"
| "ToNumber P v =
     (case ToString P v of
        None \<Rightarrow> Inl (Error (TypeError_message P))
      | Some s \<Rightarrow> Inr (StringToNumber P s))"

fun is_JStr :: "jsval \<Rightarrow> bool" where
  "is_JStr (JStr s) = True"
| "is_JStr _ = False"

text \<open>
  The binary operators \<^verbatim>\<open>-\<close> and \<^verbatim>\<open>+\<close>; the left operand is converted first.
  \<^verbatim>\<open>+\<close> concatenates when either primitive is a string and adds numbers otherwise.
\<close>

definition js_minus :: "platform \<Rightarrow> jsval \<Rightarrow> jsval \<Rightarrow> thrown + jsnum" where
  "js_minus P a b =
     (case ToNumber P a of
        Inl e \<Rightarrow> Inl e
      | Inr x \<Rightarrow> (case ToNumber P b of Inl e \<Rightarrow> Inl e | Inr y \<Rightarrow> Inr (num_sub P x y)))"

definition js_plus :: "platform \<Rightarrow> jsval \<Rightarrow> jsval \<Rightarrow> thrown + jsval" where
  "js_plus P a b =
     (case ToPrimitive P a of
        Inl e \<Rightarrow> Inl e
      | Inr pa \<Rightarrow>
          (case ToPrimitive P b of
             Inl e \<Rightarrow> Inl e
           | Inr pb \<Rightarrow>
               if is_JStr pa \<or> is_JStr pb then
                 (case ToString P pa of
                    None \<Rightarrow> Inl (Error (TypeError_message P))
                  | Some sa \<Rightarrow>
                      (case ToString P pb of
                         None \<Rightarrow> Inl (Error (TypeError_message P))
                       | Some sb \<Rightarrow> Inr (JStr (sa @ sb))))
               else
                 (case ToNumber P pa of
                    Inl e \<Rightarrow> Inl e
                  | Inr x \<Rightarrow>
                      (case ToNumber P pb of
                         Inl e \<Rightarrow> Inl e
                       | Inr y \<Rightarrow> Inr (JNum (num_add P x y))))))"

text \<open>\<^verbatim>\<open>a || b\<close> and \<^verbatim>\<open>a ?? b\<close>.\<close>

definition js_or :: "jsval \<Rightarrow> jsval \<Rightarrow> jsval" where
  "js_or a b = (if truthy a then a else b)"

definition js_coalesce :: "jsval \<Rightarrow> jsval \<Rightarrow> jsval" where
  "js_coalesce a b = (if nullish a then b else a)"

text \<open>
  Reading one of the properties \<^verbatim>\<open>count\<close>, \<^verbatim>\<open>timestamp\<close> and \<^verbatim>\<open>error\<close>, which no
  built-in prototype defines: an object gives its own property, any other value that is
  not \<^verbatim>\<open>null\<close> or \<^verbatim>\<open>undefined\<close> gives \<^verbatim>\<open>undefined\<close>. On \<^verbatim>\<open>null\<close> and
  \<^verbatim>\<open>undefined\<close>, \<^verbatim>\<open>v.k\<close> and destructuring throw a \<^verbatim>\<open>TypeError\<close>, and
  \<^verbatim>\<open>v?.k\<close> is \<^verbatim>\<open>undefined\<close>.
\<close>

fun read_prop :: "jsval \<Rightarrow> string \<Rightarrow> jsval" where
  "read_prop (JObj kvs) k = (case map_of kvs k of None \<Rightarrow> JUndefined | Some v \<Rightarrow> v)"
| "read_prop _ k = JUndefined"

definition get_property :: "platform \<Rightarrow> jsval \<Rightarrow> string \<Rightarrow> thrown + jsval" where
  "get_property P v k =
     (if nullish v then Inl (Error (TypeError_message P)) else Inr (read_prop v k))"

definition opt_chain :: "jsval \<Rightarrow> string \<Rightarrow> jsval" where
  "opt_chain v k = (if nullish v then JUndefined else read_prop v k)"

section \<open>The browser and the component's state\<close>

text \<open>
  Everything the component does beyond computing is recorded: a request sent
  (URL, method, body), a line on the console, a toast, the confetti.
\<close>

datatype event =
    Fetch string string "string option"
  | ConsoleError string thrown
  | ToastSuccess
  | ToastError string
  | ConfettiBurst

text \<open>
  \<open>localStorage\<close> survives a reload; \<open>query_data\<close> (\<^verbatim>\<open>query.data\<close>, \<^verbatim>\<open>undefined\<close>
  until a fetch has settled), \<open>success\<close> and \<open>localSuccess\<close> (the two \<^verbatim>\<open>useState\<close>
  cells) do not. \<^verbatim>\<open>localStorage.setItem\<close> is taken to succeed (no quota error).
\<close>

record world =
  localStorage :: "string \<rightharpoonup> string"
  query_data :: jsval
  success :: bool
  localSuccess :: bool
  events :: "event list"

text \<open>
  What the network answers to one \<^verbatim>\<open>fetch\<close>: a rejected promise, or a response with
  its \<^verbatim>\<open>ok\<close> flag and what \<^verbatim>\<open>res.json()\<close> would give (on the left the message of the
  error it rejects with).
\<close>

datatype fetch_outcome = Rejected thrown | Response bool "string + jsval"

definition emit :: "event \<Rightarrow> world \<Rightarrow> world" where
  "emit e w = w\<lparr>events := events w @ [e]\<rparr>"

definition setItem :: "string \<Rightarrow> string \<Rightarrow> world \<Rightarrow> world" where
  "setItem k v w = w\<lparr>localStorage := (localStorage w)(k \<mapsto> v)\<rparr>"

section \<open>The API functions\<close>

definition getWaitlistCount :: "fetch_outcome \<Rightarrow> world \<Rightarrow> (thrown + jsval) \<times> world" where
  "getWaitlistCount net w =
     (let w1 = emit (Fetch ''/api/waitlist/count'' ''GET'' None) w
      in case net of
           Rejected e \<Rightarrow> (Inl e, w1)
         | Response ok body \<Rightarrow>
             if \<not> ok then (Inl (Error ''Failed to get waitlist count''), w1)
             else (case body of Inl m \<Rightarrow> (Inl (Error m), w1) | Inr v \<Rightarrow> (Inr v, w1)))"

definition joinWaitlist ::
  "platform \<Rightarrow> string \<Rightarrow> fetch_outcome \<Rightarrow> world \<Rightarrow> (thrown + unit) \<times> world" where
  "joinWaitlist P email net w =
     (let w1 = emit (Fetch ''/api/waitlist/join'' ''POST''
                  (Some (JSON_stringify P (JObj [(''email'', JStr email)])))) w
      in case net of
           Rejected e \<Rightarrow> (Inl e, w1)
         | Response ok body \<Rightarrow>
             if \<not> ok then
               (let errorData = (case body of Inl m \<Rightarrow> JObj [] | Inr v \<Rightarrow> v)
                in case get_property P errorData ''error'' of
                     Inl e \<Rightarrow> (Inl e, w1)
                   | Inr err \<Rightarrow>
                       (case ToString P (js_or err (JStr ''Failed to join waitlist'')) of
                          None \<Rightarrow> (Inl (Error (TypeError_message P)), w1)
                        | Some message \<Rightarrow> (Inl (Error message), w1)))
             else (Inr (), w1))"

definition LOCAL_STORAGE_KEY :: string where
  "LOCAL_STORAGE_KEY = ''waitlist_count''"

definition CACHE_DURATION :: int where
  "CACHE_DURATION = 2 * 60 * 60 * 1000"

section \<open>useWaitlistCount: the query\<close>

text \<open>
  The body of the \<^verbatim>\<open>try\<close> block of \<^verbatim>\<open>queryFn\<close>, on the stored string: it throws
  (left), returns \<^verbatim>\<open>{ count }\<close> from the function (\<open>Some\<close>), or falls through to
  the fetch (\<open>None\<close>). \<open>now\<close> is \<^verbatim>\<open>Date.now()\<close> at that moment.
\<close>

definition read_cached :: "platform \<Rightarrow> int \<Rightarrow> string \<Rightarrow> thrown + jsval option" where
  "read_cached P now cachedData =
     (case JSON_parse P cachedData of
        Inl m \<Rightarrow> Inl (Error m)
      | Inr v \<Rightarrow>
          if nullish v then Inl (Error (TypeError_message P))
          else
            (let count = read_prop v ''count'';
                 timestamp = read_prop v ''timestamp''
             in case js_minus P (JNum (Fin now)) timestamp of
                  Inl e \<Rightarrow> Inl e
                | Inr age \<Rightarrow>
                    (let isExpired = num_gt age (Fin CACHE_DURATION)
                     in if \<not> isExpired then Inr (Some (JObj [(''count'', count)]))
                        else Inr None)))"

text \<open>
  Lines 57 to 69: \<^verbatim>\<open>if (cachedData)\<close> skips an absent entry and the empty string; a
  throw inside the \<^verbatim>\<open>try\<close> is caught and logged.
\<close>

definition cache_lookup :: "platform \<Rightarrow> int \<Rightarrow> world \<Rightarrow> jsval option \<times> world" where
  "cache_lookup P now w =
     (case localStorage w LOCAL_STORAGE_KEY of
        None \<Rightarrow> (None, w)
      | Some cachedData \<Rightarrow>
          if cachedData = [] then (None, w)
          else
            (case read_cached P now cachedData of
               Inl e \<Rightarrow> (None, emit (ConsoleError ''Error parsing waitlist cache:'' e) w)
             | Inr r \<Rightarrow> (r, w)))"

text \<open>Lines 71 to 81; \<open>now'\<close> is \<^verbatim>\<open>Date.now()\<close> after the response has arrived.\<close>

definition fetch_and_persist ::
  "platform \<Rightarrow> int \<Rightarrow> fetch_outcome \<Rightarrow> world \<Rightarrow> (thrown + jsval) \<times> world" where
  "fetch_and_persist P now' net w =
     (case getWaitlistCount net w of
        (Inl e, w1) \<Rightarrow> (Inl e, w1)
      | (Inr data, w1) \<Rightarrow>
          (case get_property P data ''count'' of
             Inl e \<Rightarrow> (Inl e, w1)
           | Inr c \<Rightarrow>
               (Inr data,
                setItem LOCAL_STORAGE_KEY
                  (JSON_stringify P (JObj [(''count'', c), (''timestamp'', JNum (Fin now'))]))
                  w1)))"

definition queryFn ::
  "platform \<Rightarrow> int \<Rightarrow> int \<Rightarrow> fetch_outcome \<Rightarrow> world \<Rightarrow> (thrown + jsval) \<times> world" where
  "queryFn P now now' net w =
     (case cache_lookup P now w of
        (Some cached, w1) \<Rightarrow> (Inr cached, w1)
      | (None, w1) \<Rightarrow> fetch_and_persist P now' net w1)"

text \<open>
  One run of the query by \<^verbatim>\<open>useQuery\<close>: a resolved \<^verbatim>\<open>queryFn\<close> becomes
  \<^verbatim>\<open>query.data\<close>, a rejected one leaves it as it was.
\<close>

definition useQuery :: "platform \<Rightarrow> int \<Rightarrow> int \<Rightarrow> fetch_outcome \<Rightarrow> world \<Rightarrow> world" where
  "useQuery P now now' net w =
     (case queryFn P now now' net w of
        (Inl e, w1) \<Rightarrow> w1
      | (Inr d, w1) \<Rightarrow> w1\<lparr>query_data := d\<rparr>)"

text \<open>Line 119: \<^verbatim>\<open>count: query.data?.count ?? 0\<close>, the count the page displays.\<close>

definition waitlist_count :: "world \<Rightarrow> jsval" where
  "waitlist_count w = js_coalesce (opt_chain (query_data w) ''count'') (JNum (Fin 0))"

section \<open>useWaitlistCount: the mutation\<close>

text \<open>
  \<^verbatim>\<open>onSuccess\<close> has called \<^verbatim>\<open>setSuccess(true)\<close> when line 91 computes the new
  count; if the \<^verbatim>\<open>+\<close> throws, nothing after it runs.
\<close>

definition onSuccess :: "platform \<Rightarrow> int \<Rightarrow> world \<Rightarrow> (thrown + unit) \<times> world" where
  "onSuccess P now w =
     (let w1 = w\<lparr>success := True\<rparr>
      in case js_plus P (js_coalesce (opt_chain (query_data w) ''count'') (JNum (Fin 0)))
                (JNum (Fin 1)) of
           Inl e \<Rightarrow> (Inl e, w1)
         | Inr newCount \<Rightarrow>
             (let w2 = w1\<lparr>query_data := JObj [(''count'', newCount)]\<rparr>;
                  w3 = setItem LOCAL_STORAGE_KEY
                         (JSON_stringify P
                            (JObj [(''count'', newCount), (''timestamp'', JNum (Fin now))]))
                         w2;
                  w4 = emit ConfettiBurst w3
              in (Inr (), emit ToastSuccess w4)))"

definition onError :: "thrown \<Rightarrow> world \<Rightarrow> world" where
  "onError error w =
     (let errorMessage =
            (case error of
               Error message \<Rightarrow> message
             | NonError \<Rightarrow> ''Something went wrong. Please try again.'')
      in emit (ToastError errorMessage) w)"

text \<open>
  \<^verbatim>\<open>mutate(email)\<close>: \<^verbatim>\<open>useMutation\<close> runs \<^verbatim>\<open>mutationFn\<close> and then one of the two
  handlers. What it does with an error thrown by \<^verbatim>\<open>onSuccess\<close> is the library's:
  it reports it to \<^verbatim>\<open>onError\<close> or drops it.
\<close>

definition mutate :: "platform \<Rightarrow> string \<Rightarrow> fetch_outcome \<Rightarrow> int \<Rightarrow> world \<Rightarrow> world" where
  "mutate P email net now w =
     (case joinWaitlist P email net w of
        (Inl e, w1) \<Rightarrow> onError e w1
      | (Inr u, w1) \<Rightarrow>
          (case onSuccess P now w1 of
             (Inl e, w2) \<Rightarrow> if onSuccess_error_to_onError P then onError e w2 else w2
           | (Inr u', w2) \<Rightarrow> w2))"

section \<open>WaitlistForm\<close>

text \<open>The effect of lines 137 to 147, with dependency \<^verbatim>\<open>[waitlist.success]\<close>.\<close>

definition useEffect :: "world \<Rightarrow> world" where
  "useEffect w =
     (if success w then (setItem ''waitlist_success'' ''true'' w)\<lparr>localSuccess := True\<rparr>
      else
        (case localStorage w ''waitlist_success'' of
           None \<Rightarrow> w
         | Some stored \<Rightarrow> if stored = ''true'' then w\<lparr>localSuccess := True\<rparr> else w))"

text \<open>
  A submission as the page performs it: \<^verbatim>\<open>handleJoinWaitlist\<close> calls \<^verbatim>\<open>mutate\<close>, and
  React runs the effect again when its dependency has changed.
\<close>

definition submit :: "platform \<Rightarrow> string \<Rightarrow> fetch_outcome \<Rightarrow> int \<Rightarrow> world \<Rightarrow> world" where
  "submit P email net now w =
     (let w1 = mutate P email net now w
      in if success w1 \<noteq> success w then useEffect w1 else w1)"

text \<open>
  A full (re)load of the page: the in-memory state starts afresh, the storage is kept,
  and the effect runs once on mount.
\<close>

definition load :: "world \<Rightarrow> world" where
  "load w = useEffect (w\<lparr>query_data := JUndefined, success := False, localSuccess := False\<rparr>)"

text \<open>The persisted SuccessFlag, as the effect reads it.\<close>

definition SuccessFlag :: "world \<Rightarrow> bool" where
  "SuccessFlag w = (localStorage w ''waitlist_success'' = Some ''true'')"

text \<open>The operations of the page, with what the clock and the network give each.\<close>

datatype action =
    Load
  | GetCount int int fetch_outcome
  | Submit string fetch_outcome int

fun step :: "platform \<Rightarrow> world \<Rightarrow> action \<Rightarrow> world" where
  "step P w Load = load w"
| "step P w (GetCount now now' net) = useQuery P now now' net w"
| "step P w (Submit email net now) = submit P email net now w"

definition run :: "platform \<Rightarrow> action list \<Rightarrow> world \<Rightarrow> world" where
  "run P acts w = foldl (step P) w acts"

section \<open>Derived notions and sample data\<close>

text \<open>The requests among the recorded events.\<close>

fun is_Fetch :: "event \<Rightarrow> bool" where
  "is_Fetch (Fetch url method body) = True"
| "is_Fetch _ = False"

definition network_calls :: "world \<Rightarrow> event list" where
  "network_calls w = filter is_Fetch (events w)"

text \<open>
  A test double for the platform, used to run the model on concrete inputs. On the
  strings and objects of the examples below it answers as a browser does; the examples
  reach nothing else of it.
\<close>

definition sample_parse :: "string \<Rightarrow> string + jsval" where
  \<open>sample_parse s =
     (if s = ''{}'' then Inr (JObj [])
      else if s = ''null'' then Inr JNull
      else if s = ''{"count":42,"timestamp":0}''
        then Inr (JObj [(''count'', JNum (Fin 42)), (''timestamp'', JNum (Fin 0))])
      else if s = ''{"count":-5,"timestamp":0}''
        then Inr (JObj [(''count'', JNum (Fin (- 5))), (''timestamp'', JNum (Fin 0))])
      else if s = ''{"count":"5","timestamp":0}''
        then Inr (JObj [(''count'', JStr ''5''), (''timestamp'', JNum (Fin 0))])
      else if s = ''{"timestamp":{"toString":0}}''
        then Inr (JObj [(''timestamp'', JObj [(''toString'', JNum (Fin 0))])])
      else Inl ''Unexpected token'')\<close>

definition sample_stringify :: "jsval \<Rightarrow> string" where
  \<open>sample_stringify v =
     (if v = JObj [(''count'', JNum (Fin 1)), (''timestamp'', JNum (Fin 1000))]
        then ''{"count":1,"timestamp":1000}''
      else if v = JObj [(''count'', JNum (Fin 43)), (''timestamp'', JNum (Fin 1000))]
        then ''{"count":43,"timestamp":1000}''
      else if v = JObj [(''count'', JNum (Fin 50)), (''timestamp'', JNum (Fin 7200002))]
        then ''{"count":50,"timestamp":7200002}''
      else if v = JObj [(''email'', JStr ''a@b.com'')]
        then ''{"email":"a@b.com"}''
      else [])\<close>

definition sample_platform :: platform where
  "sample_platform =
     \<lparr>JSON_parse = sample_parse,
      JSON_stringify = sample_stringify,
      StringToNumber = (\<lambda>s. NaN),
      NumberToString = (\<lambda>n. if n = Fin 1 then ''1'' else []),
      DoubleAdd = (\<lambda>x y. x),
      DoubleSub = (\<lambda>x y. NaN),
      TypeError_message = ''TypeError'',
      onSuccess_error_to_onError = True\<rparr>"

text \<open>A freshly opened page over a given storage, with nothing recorded yet.\<close>

definition fresh_page :: "(string \<rightharpoonup> string) \<Rightarrow> world" where
  "fresh_page store =
     \<lparr>localStorage = store, query_data = JUndefined, success = False,
      localSuccess = False, events = []\<rparr>"

definition blank_page :: world where
  "blank_page = fresh_page Map.empty"

definition showing_42 :: world where
  "showing_42 = blank_page\<lparr>query_data := JObj [(''count'', JNum (Fin 42))]\<rparr>"

definition already_joined :: world where
  "already_joined = fresh_page [''waitlist_success'' \<mapsto> ''true'']"

definition cache_42_at_0 :: world where
  \<open>cache_42_at_0 = fresh_page [LOCAL_STORAGE_KEY \<mapsto> ''{"count":42,"timestamp":0}'']\<close>

definition cache_empty_object :: world where
  \<open>cache_empty_object = fresh_page [LOCAL_STORAGE_KEY \<mapsto> ''{}'']\<close>

definition cache_minus_5 :: world where
  \<open>cache_minus_5 = fresh_page [LOCAL_STORAGE_KEY \<mapsto> ''{"count":-5,"timestamp":0}'']\<close>

definition cache_string_5 :: world where
  \<open>cache_string_5 = fresh_page [LOCAL_STORAGE_KEY \<mapsto> ''{"count":"5","timestamp":0}'']\<close>

definition cache_shadowed_toString :: world where
  \<open>cache_shadowed_toString =
     fresh_page [LOCAL_STORAGE_KEY \<mapsto> ''{"timestamp":{"toString":0}}'']\<close>

definition cache_garbage :: world where
  \<open>cache_garbage = fresh_page [LOCAL_STORAGE_KEY \<mapsto> ''<html>'']\<close>

definition server_says_50 :: fetch_outcome where
  "server_says_50 = Response True (Inr (JObj [(''count'', JNum (Fin 50))]))"

section \<open>Properties\<close>

subsection \<open>Field access through the two state updates\<close>

lemma emit_fields [simp]:
  "localStorage (emit e w) = localStorage w"
  "query_data (emit e w) = query_data w"
  "success (emit e w) = success w"
  "localSuccess (emit e w) = localSuccess w"
  "events (emit e w) = events w @ [e]"
  by (simp_all add: emit_def)

lemma setItem_fields [simp]:
  "localStorage (setItem k v w) = (localStorage w)(k \<mapsto> v)"
  "query_data (setItem k v w) = query_data w"
  "success (setItem k v w) = success w"
  "localSuccess (setItem k v w) = localSuccess w"
  "events (setItem k v w) = events w"
  by (simp_all add: setItem_def)

lemma read_cached_fresh:
  assumes "JSON_parse P cachedData = Inr (JObj kvs)"
    and "map_of kvs ''count'' = Some count"
    and "map_of kvs ''timestamp'' = Some (JNum (Fin timestamp))"
    and "now - timestamp \<le> CACHE_DURATION"
  shows "read_cached P now cachedData = Inr (Some (JObj [(''count'', count)]))"
  using assms by (simp add: read_cached_def js_minus_def)

lemma read_cached_expired:
  assumes "JSON_parse P cachedData = Inr (JObj kvs)"
    and "map_of kvs ''timestamp'' = Some (JNum (Fin timestamp))"
    and "now - timestamp > CACHE_DURATION"
  shows "read_cached P now cachedData = Inr None"
  using assms by (simp add: read_cached_def js_minus_def)

subsection \<open>Facts about the pieces\<close>

lemma getWaitlistCount_world:
  "snd (getWaitlistCount net w) = emit (Fetch ''/api/waitlist/count'' ''GET'' None) w"
  by (simp add: getWaitlistCount_def Let_def split: fetch_outcome.splits sum.splits)

lemma getWaitlistCount_result:
  "fst (getWaitlistCount net w) =
     (case net of
        Rejected e \<Rightarrow> Inl e
      | Response ok body \<Rightarrow>
          if \<not> ok then Inl (Error ''Failed to get waitlist count'')
          else (case body of Inl m \<Rightarrow> Inl (Error m) | Inr v \<Rightarrow> Inr v))"
  by (simp add: getWaitlistCount_def Let_def split: fetch_outcome.splits sum.splits)

lemma fetch_and_persist_calls:
  "network_calls (snd (fetch_and_persist P now' net w)) =
     network_calls w @ [Fetch ''/api/waitlist/count'' ''GET'' None]"
  by (cases "getWaitlistCount net w")
     (use getWaitlistCount_world [of net w] in
      \<open>auto simp: fetch_and_persist_def network_calls_def split: sum.splits\<close>)

lemma fetch_and_persist_events:
  "events (snd (fetch_and_persist P now' net w)) =
     events w @ [Fetch ''/api/waitlist/count'' ''GET'' None]"
  by (cases "getWaitlistCount net w")
     (use getWaitlistCount_world [of net w] in
      \<open>auto simp: fetch_and_persist_def split: sum.splits\<close>)

lemma fetch_and_persist_ok:
  assumes "\<not> nullish data"
  shows "fetch_and_persist P now' (Response True (Inr data)) w =
     (Inr data,
      setItem LOCAL_STORAGE_KEY
        (JSON_stringify P
           (JObj [(''count'', read_prop data ''count''), (''timestamp'', JNum (Fin now'))]))
        (emit (Fetch ''/api/waitlist/count'' ''GET'' None) w))"
  using assms
  by (simp add: fetch_and_persist_def getWaitlistCount_def get_property_def)

lemma fetch_and_persist_failed:
  assumes "fst (getWaitlistCount net w) = Inl e"
  shows "fetch_and_persist P now' net w =
     (Inl e, emit (Fetch ''/api/waitlist/count'' ''GET'' None) w)"
  using assms getWaitlistCount_world [of net w]
  by (cases "getWaitlistCount net w") (simp add: fetch_and_persist_def)

lemma fetch_and_persist_result_independent:
  "fst (fetch_and_persist P now' net w) = fst (fetch_and_persist P now' net w')"
  by (simp add: fetch_and_persist_def getWaitlistCount_def Let_def
      split: fetch_outcome.splits sum.splits)

lemma fetch_and_persist_storage:
  "localStorage (snd (fetch_and_persist P now' net w)) =
     (case fst (fetch_and_persist P now' net w) of
        Inl e \<Rightarrow> localStorage w
      | Inr data \<Rightarrow>
          (localStorage w)(LOCAL_STORAGE_KEY \<mapsto>
            JSON_stringify P
              (JObj [(''count'', read_prop data ''count''), (''timestamp'', JNum (Fin now'))])))"
  by (simp add: fetch_and_persist_def getWaitlistCount_def get_property_def Let_def
      split: fetch_outcome.splits sum.splits)

lemma fetch_and_persist_memory:
  "query_data (snd (fetch_and_persist P now' net w)) = query_data w"
  "success (snd (fetch_and_persist P now' net w)) = success w"
  "localSuccess (snd (fetch_and_persist P now' net w)) = localSuccess w"
  by (simp_all add: fetch_and_persist_def getWaitlistCount_def get_property_def Let_def
      split: fetch_outcome.splits sum.splits)

lemma cache_lookup_absent:
  "localStorage w LOCAL_STORAGE_KEY = None \<Longrightarrow> cache_lookup P now w = (None, w)"
  by (simp add: cache_lookup_def)

lemma cache_lookup_empty:
  "localStorage w LOCAL_STORAGE_KEY = Some [] \<Longrightarrow> cache_lookup P now w = (None, w)"
  by (simp add: cache_lookup_def)

lemma cache_lookup_rejected:
  assumes "localStorage w LOCAL_STORAGE_KEY = Some s" and "s \<noteq> []"
    and "JSON_parse P s = Inl m"
  shows "cache_lookup P now w =
     (None, emit (ConsoleError ''Error parsing waitlist cache:'' (Error m)) w)"
  using assms by (simp add: cache_lookup_def read_cached_def)

lemma cache_lookup_null:
  assumes "localStorage w LOCAL_STORAGE_KEY = Some s" and "s \<noteq> []"
    and "JSON_parse P s = Inr JNull"
  shows "cache_lookup P now w =
     (None,
      emit (ConsoleError ''Error parsing waitlist cache:'' (Error (TypeError_message P))) w)"
  using assms by (simp add: cache_lookup_def read_cached_def)

lemma cache_lookup_unconvertible:
  assumes "localStorage w LOCAL_STORAGE_KEY = Some s" and "s \<noteq> []"
    and "JSON_parse P s = Inr v" and "\<not> nullish v"
    and "ToNumber P (read_prop v ''timestamp'') = Inl e"
  shows "cache_lookup P now w =
     (None, emit (ConsoleError ''Error parsing waitlist cache:'' e) w)"
  using assms by (simp add: cache_lookup_def read_cached_def js_minus_def)

lemma shadowed_toString_throws:
  "map_of kvs ''toString'' \<noteq> None \<Longrightarrow> ToNumber P (JObj kvs) = Inl (Error (TypeError_message P))"
  by auto

lemma cache_lookup_expired:
  assumes "localStorage w LOCAL_STORAGE_KEY = Some s" and "s \<noteq> []"
    and "JSON_parse P s = Inr (JObj kvs)"
    and "map_of kvs ''timestamp'' = Some (JNum (Fin t))"
    and "now - t > CACHE_DURATION"
  shows "cache_lookup P now w = (None, w)"
  using assms read_cached_expired [of P s kvs t now] by (simp add: cache_lookup_def)

text \<open>The lookup never touches the storage or the in-memory state, and sends nothing.\<close>

lemma cache_lookup_world:
  "localStorage (snd (cache_lookup P now w)) = localStorage w"
  "query_data (snd (cache_lookup P now w)) = query_data w"
  "success (snd (cache_lookup P now w)) = success w"
  "localSuccess (snd (cache_lookup P now w)) = localSuccess w"
  "network_calls (snd (cache_lookup P now w)) = network_calls w"
  by (simp_all add: cache_lookup_def network_calls_def split: option.splits sum.splits)

lemma queryFn_miss:
  "cache_lookup P now w = (None, w1) \<Longrightarrow> queryFn P now now' net w = fetch_and_persist P now' net w1"
  by (simp add: queryFn_def)

lemma queryFn_hit:
  "cache_lookup P now w = (Some v, w1) \<Longrightarrow> queryFn P now now' net w = (Inr v, w1)"
  by (simp add: queryFn_def)


lemma cache_lookup_rejected_miss:
  assumes "localStorage w LOCAL_STORAGE_KEY = Some s" and "JSON_parse P s = Inl m"
  shows "fst (cache_lookup P now w) = None"
  using assms by (simp add: cache_lookup_def read_cached_def)

subsection \<open>C3: a fresh entry is served without a request\<close>

text \<open>
  C3. When the stored entry is a record whose timestamp \<open>timestamp\<close> satisfies
  \<open>now - timestamp < CACHE_DURATION\<close>, \<open>queryFn\<close> returns the stored count and
  leaves the world as it was: no request is sent, nothing is written, nothing is logged.
\<close>

theorem fresh_cache_served_without_fetch:
  assumes "localStorage w LOCAL_STORAGE_KEY = Some cachedData"
    and "cachedData \<noteq> []"
    and "JSON_parse P cachedData = Inr (JObj kvs)"
    and "map_of kvs ''count'' = Some count"
    and "map_of kvs ''timestamp'' = Some (JNum (Fin timestamp))"
    and "now - timestamp < CACHE_DURATION"
  shows "queryFn P now now' net w = (Inr (JObj [(''count'', count)]), w)"
proof -
  from assms(6) have "now - timestamp \<le> CACHE_DURATION" by simp
  with assms(3-5) have "read_cached P now cachedData = Inr (Some (JObj [(''count'', count)]))"
    by (rule read_cached_fresh)
  with assms(1,2) show ?thesis
    by (simp add: queryFn_def cache_lookup_def)
qed


theorem fresh_cache_served_without_fetch_witness:
  "localStorage cache_42_at_0 LOCAL_STORAGE_KEY \<noteq> None \<and>
   (1000::int) - 0 < CACHE_DURATION \<and>
   queryFn sample_platform 1000 1001 server_says_50 cache_42_at_0
     = (Inr (JObj [(''count'', JNum (Fin 42))]), cache_42_at_0) \<and>
   network_calls (snd (queryFn sample_platform 1000 1001 server_says_50 cache_42_at_0)) = []"
  using fresh_cache_served_without_fetch
    [of cache_42_at_0 "the (localStorage cache_42_at_0 LOCAL_STORAGE_KEY)" sample_platform
        "[(''count'', JNum (Fin 42)), (''timestamp'', JNum (Fin 0))]" "JNum (Fin 42)" 0 1000 1001
        server_says_50]
  by (simp add: cache_42_at_0_def fresh_page_def sample_platform_def sample_parse_def
      CACHE_DURATION_def network_calls_def)


subsection \<open>C2: when the request is made\<close>

text \<open>
  The entry expires only when its age exceeds \<open>CACHE_DURATION\<close>
  (\<^verbatim>\<open>Date.now() - timestamp > CACHE_DURATION\<close>): at an age of exactly two hours the
  stored count is still served and no request is sent.
\<close>


theorem boundary_age_served_from_cache:
  \<open>localStorage cache_42_at_0 LOCAL_STORAGE_KEY = Some ''{"count":42,"timestamp":0}'' \<and>
   (7200000::int) - 0 \<ge> CACHE_DURATION \<and>
   queryFn sample_platform 7200000 7200002 server_says_50 cache_42_at_0
     = (Inr (JObj [(''count'', JNum (Fin 42))]), cache_42_at_0) \<and>
   network_calls (snd (queryFn sample_platform 7200000 7200002 server_says_50 cache_42_at_0)) = []\<close>
  by (simp add: queryFn_def cache_lookup_def read_cached_def js_minus_def cache_42_at_0_def
      fresh_page_def sample_platform_def sample_parse_def CACHE_DURATION_def network_calls_def
      LOCAL_STORAGE_KEY_def)

text \<open>
  C2, amended. When the entry is absent, is the empty string, is rejected by
  \<^verbatim>\<open>JSON.parse\<close>, or is a record whose numeric timestamp satisfies
  \<open>now - timestamp > CACHE_DURATION\<close>, \<open>queryFn\<close> sends exactly one request
  (\<^verbatim>\<open>GET /api/waitlist/count\<close>); when that request answers with a value, the
  value's count is stored with the timestamp \<open>now'\<close> and the value is returned.
\<close>

theorem stale_or_unreadable_cache_fetches_once:
  assumes "localStorage w LOCAL_STORAGE_KEY = None
    \<or> (\<exists>s. localStorage w LOCAL_STORAGE_KEY = Some s \<and> (s = [] \<or> (\<exists>m. JSON_parse P s = Inl m)))
    \<or> (\<exists>s kvs t. localStorage w LOCAL_STORAGE_KEY = Some s \<and> s \<noteq> []
          \<and> JSON_parse P s = Inr (JObj kvs)
          \<and> map_of kvs ''timestamp'' = Some (JNum (Fin t))
          \<and> now - t > CACHE_DURATION)"
  shows "network_calls (snd (queryFn P now now' net w))
           = network_calls w @ [Fetch ''/api/waitlist/count'' ''GET'' None]
    \<and> (\<forall>data. net = Response True (Inr data) \<longrightarrow> \<not> nullish data \<longrightarrow>
          fst (queryFn P now now' net w) = Inr data
          \<and> localStorage (snd (queryFn P now now' net w))
              = (localStorage w)(LOCAL_STORAGE_KEY \<mapsto>
                  JSON_stringify P
                    (JObj [(''count'', read_prop data ''count''),
                           (''timestamp'', JNum (Fin now'))])))"
proof -
  have miss: "fst (cache_lookup P now w) = None"
    using assms
    by (auto simp: cache_lookup_absent cache_lookup_empty cache_lookup_rejected_miss
        cache_lookup_expired)
  obtain w1 where w1: "cache_lookup P now w = (None, w1)"
    using miss by (cases "cache_lookup P now w") simp
  have q: "queryFn P now now' net w = fetch_and_persist P now' net w1"
    using w1 by (rule queryFn_miss)
  have same: "localStorage w1 = localStorage w" "network_calls w1 = network_calls w"
    using cache_lookup_world(1,5) [of P now w] w1 by simp_all
  have calls: "network_calls (snd (queryFn P now now' net w))
      = network_calls w @ [Fetch ''/api/waitlist/count'' ''GET'' None]"
    by (simp add: q fetch_and_persist_calls same)
  have persisted: "fst (queryFn P now now' net w) = Inr data
      \<and> localStorage (snd (queryFn P now now' net w))
          = (localStorage w)(LOCAL_STORAGE_KEY \<mapsto>
              JSON_stringify P
                (JObj [(''count'', read_prop data ''count''), (''timestamp'', JNum (Fin now'))]))"
    if "net = Response True (Inr data)" and "\<not> nullish data" for data
    unfolding q using that by (simp add: fetch_and_persist_ok same)
  from calls persisted show ?thesis by blast
qed

theorem stale_or_unreadable_cache_fetches_once_witness:
  \<open>(7200001::int) - 0 > CACHE_DURATION \<and>
   network_calls (snd (queryFn sample_platform 7200001 7200002 server_says_50 cache_42_at_0))
     = [Fetch ''/api/waitlist/count'' ''GET'' None] \<and>
   fst (queryFn sample_platform 7200001 7200002 server_says_50 cache_42_at_0)
     = Inr (JObj [(''count'', JNum (Fin 50))]) \<and>
   localStorage (snd (queryFn sample_platform 7200001 7200002 server_says_50 cache_42_at_0))
     LOCAL_STORAGE_KEY = Some ''{"count":50,"timestamp":7200002}''\<close>
proof -
  have stale: "\<exists>s kvs t. localStorage cache_42_at_0 LOCAL_STORAGE_KEY = Some s \<and> s \<noteq> []
      \<and> JSON_parse sample_platform s = Inr (JObj kvs)
      \<and> map_of kvs ''timestamp'' = Some (JNum (Fin t))
      \<and> 7200001 - t > CACHE_DURATION"
    by (rule exI [of _ "the (localStorage cache_42_at_0 LOCAL_STORAGE_KEY)"],
        rule exI [of _ "[(''count'', JNum (Fin 42)), (''timestamp'', JNum (Fin 0))]"],
        rule exI [of _ 0])
       (simp add: cache_42_at_0_def fresh_page_def sample_platform_def sample_parse_def
          CACHE_DURATION_def)
  show ?thesis
    using stale_or_unreadable_cache_fetches_once
      [of cache_42_at_0 sample_platform 7200001 7200002 server_says_50] stale
    by (simp add: server_says_50_def cache_42_at_0_def fresh_page_def network_calls_def
        sample_platform_def sample_stringify_def CACHE_DURATION_def)
qed

subsection \<open>C7: which stored values count as a miss\<close>

text \<open>
  Only a throw inside the \<^verbatim>\<open>try\<close> block, or an expired timestamp, makes a stored
  value a miss. The stored string \<^verbatim>\<open>{}\<close> parses, its missing timestamp makes the
  age \<^verbatim>\<open>NaN\<close>, the comparison is false, and the entry is served: \<^verbatim>\<open>{ count: undefined }\<close> is
  returned, nothing is logged and no request is sent, whereas with no entry stored the
  server's count is fetched.
\<close>


theorem parseable_malformed_cache_served:
  \<open>localStorage cache_empty_object LOCAL_STORAGE_KEY = Some ''{}'' \<and>
   JSON_parse sample_platform ''{}'' = Inr (JObj []) \<and>
   queryFn sample_platform 1000 1001 server_says_50 cache_empty_object
     = (Inr (JObj [(''count'', JUndefined)]), cache_empty_object) \<and>
   events (snd (queryFn sample_platform 1000 1001 server_says_50 cache_empty_object)) = [] \<and>
   fst (queryFn sample_platform 1000 1001 server_says_50 blank_page)
     = Inr (JObj [(''count'', JNum (Fin 50))])\<close>
  by (simp add: queryFn_def cache_lookup_def read_cached_def js_minus_def cache_empty_object_def
      blank_page_def fresh_page_def sample_platform_def sample_parse_def CACHE_DURATION_def
      LOCAL_STORAGE_KEY_def server_says_50_def fetch_and_persist_def getWaitlistCount_def
      get_property_def)

text \<open>
  C7, amended. A non-empty stored value on which the \<^verbatim>\<open>try\<close> block throws, because
  \<^verbatim>\<open>JSON.parse\<close> rejects it, because it parses to \<^verbatim>\<open>null\<close>, or because its
  timestamp cannot be converted to a number, is a miss: the error is logged with
  \<^verbatim>\<open>console.error\<close>, no toast is shown, one request is sent, and the result (and,
  when the request succeeds, the storage afterwards) is the one obtained with no entry
  stored.
\<close>

theorem unparseable_cache_logged_then_fetched:
  assumes "localStorage w LOCAL_STORAGE_KEY = Some s" and "s \<noteq> []"
    and "JSON_parse P s = Inl m \<and> e = Error m
       \<or> JSON_parse P s = Inr JNull \<and> e = Error (TypeError_message P)
       \<or> (\<exists>v. JSON_parse P s = Inr v \<and> \<not> nullish v
              \<and> ToNumber P (read_prop v ''timestamp'') = Inl e)"
  shows "fst (queryFn P now now' net w)
           = fst (queryFn P now now' net (w\<lparr>localStorage := (localStorage w)(LOCAL_STORAGE_KEY := None)\<rparr>))
    \<and> events (snd (queryFn P now now' net w))
           = events w @ [ConsoleError ''Error parsing waitlist cache:'' e,
                         Fetch ''/api/waitlist/count'' ''GET'' None]
    \<and> (\<forall>data. fst (queryFn P now now' net w) = Inr data \<longrightarrow>
          localStorage (snd (queryFn P now now' net w))
            = localStorage (snd (queryFn P now now' net
                (w\<lparr>localStorage := (localStorage w)(LOCAL_STORAGE_KEY := None)\<rparr>))))"
proof -
  let ?log = "emit (ConsoleError ''Error parsing waitlist cache:'' e) w"
  let ?absent = "w\<lparr>localStorage := (localStorage w)(LOCAL_STORAGE_KEY := None)\<rparr>"
  have "cache_lookup P now w = (None, ?log)"
    using assms
    by (auto simp: cache_lookup_rejected cache_lookup_null cache_lookup_unconvertible)
  then have q: "queryFn P now now' net w = fetch_and_persist P now' net ?log"
    by (rule queryFn_miss)
  have "cache_lookup P now ?absent = (None, ?absent)"
    by (simp add: cache_lookup_absent)
  then have qa: "queryFn P now now' net ?absent = fetch_and_persist P now' net ?absent"
    by (rule queryFn_miss)
  have r: "fst (queryFn P now now' net w) = fst (queryFn P now now' net ?absent)"
    unfolding q qa by (rule fetch_and_persist_result_independent)
  have ev: "events (snd (queryFn P now now' net w))
      = events w @ [ConsoleError ''Error parsing waitlist cache:'' e,
                    Fetch ''/api/waitlist/count'' ''GET'' None]"
    by (simp add: q fetch_and_persist_events)
  have st: "localStorage (snd (queryFn P now now' net w))
      = localStorage (snd (queryFn P now now' net ?absent))"
    if "fst (queryFn P now now' net w) = Inr data" for data
  proof -
    from that r have "fst (fetch_and_persist P now' net ?log) = Inr data"
      and "fst (fetch_and_persist P now' net ?absent) = Inr data"
      by (simp_all add: q qa)
    then show ?thesis
      by (simp add: q qa fetch_and_persist_storage)
  qed
  from r ev st show ?thesis by blast
qed

theorem unparseable_cache_logged_then_fetched_witness:
  \<open>localStorage cache_garbage LOCAL_STORAGE_KEY = Some ''<html>'' \<and>
   JSON_parse sample_platform ''<html>'' = Inl ''Unexpected token'' \<and>
   fst (queryFn sample_platform 1000 1000 server_says_50 cache_garbage)
     = Inr (JObj [(''count'', JNum (Fin 50))]) \<and>
   events (snd (queryFn sample_platform 1000 1000 server_says_50 cache_garbage))
     = [ConsoleError ''Error parsing waitlist cache:'' (Error ''Unexpected token''),
        Fetch ''/api/waitlist/count'' ''GET'' None] \<and>
   localStorage cache_shadowed_toString LOCAL_STORAGE_KEY
     = Some ''{"timestamp":{"toString":0}}'' \<and>
   events (snd (queryFn sample_platform 1000 1000 server_says_50 cache_shadowed_toString))
     = [ConsoleError ''Error parsing waitlist cache:'' (Error ''TypeError''),
        Fetch ''/api/waitlist/count'' ''GET'' None]\<close>
proof -
  have shadowed: "\<exists>v. JSON_parse sample_platform ''{\"timestamp\":{\"toString\":0}}'' = Inr v
      \<and> \<not> nullish v
      \<and> ToNumber sample_platform (read_prop v ''timestamp'') = Inl (Error ''TypeError'')"
    by (simp add: sample_platform_def sample_parse_def)
  have a: "fst (queryFn sample_platform 1000 1000 server_says_50 cache_garbage)
        = Inr (JObj [(''count'', JNum (Fin 50))])
      \<and> events (snd (queryFn sample_platform 1000 1000 server_says_50 cache_garbage))
        = [ConsoleError ''Error parsing waitlist cache:'' (Error ''Unexpected token''),
           Fetch ''/api/waitlist/count'' ''GET'' None]"
    using unparseable_cache_logged_then_fetched
      [of cache_garbage "''<html>''" sample_platform "''Unexpected token''"
          "Error ''Unexpected token''" 1000 1000 server_says_50]
    by (simp add: cache_garbage_def fresh_page_def sample_platform_def sample_parse_def
        queryFn_def cache_lookup_def fetch_and_persist_def getWaitlistCount_def
        get_property_def server_says_50_def LOCAL_STORAGE_KEY_def)
  have b: "events (snd (queryFn sample_platform 1000 1000 server_says_50 cache_shadowed_toString))
      = [ConsoleError ''Error parsing waitlist cache:'' (Error ''TypeError''),
         Fetch ''/api/waitlist/count'' ''GET'' None]"
    using unparseable_cache_logged_then_fetched
      [of cache_shadowed_toString "''{\"timestamp\":{\"toString\":0}}''" sample_platform
          "[]" "Error ''TypeError''" 1000 1000 server_says_50] shadowed
    by (simp add: cache_shadowed_toString_def fresh_page_def)
  from a b show ?thesis
    by (simp add: cache_garbage_def cache_shadowed_toString_def fresh_page_def
        sample_platform_def sample_parse_def)
qed

subsection \<open>C8: the returned count is not validated\<close>

text \<open>
  A fresh entry is served as stored: with \<^verbatim>\<open>{"count":-5,"timestamp":0}\<close> in the
  storage, \<open>queryFn\<close> returns the count \<open>-5\<close>.
\<close>

theorem negative_cached_count_returned:
  \<open>localStorage cache_minus_5 LOCAL_STORAGE_KEY = Some ''{"count":-5,"timestamp":0}'' \<and>
   queryFn sample_platform 1000 1001 server_says_50 cache_minus_5
     = (Inr (JObj [(''count'', JNum (Fin (- 5)))]), cache_minus_5) \<and>
   \<not> (0::int) \<le> - 5\<close>
  by (simp add: queryFn_def cache_lookup_def read_cached_def js_minus_def cache_minus_5_def
      fresh_page_def sample_platform_def sample_parse_def CACHE_DURATION_def
      LOCAL_STORAGE_KEY_def)

lemma queryFn_sources:
  assumes "queryFn P now now' net w = (Inr d, w')"
  shows "(\<exists>s v. localStorage w LOCAL_STORAGE_KEY = Some s \<and> JSON_parse P s = Inr v
            \<and> d = JObj [(''count'', read_prop v ''count'')])
       \<or> net = Response True (Inr d)"
proof (cases "fst (cache_lookup P now w)")
  case None
  then obtain w1 where "cache_lookup P now w = (None, w1)"
    by (cases "cache_lookup P now w") simp
  then have "queryFn P now now' net w = fetch_and_persist P now' net w1"
    by (rule queryFn_miss)
  with assms have "fst (fetch_and_persist P now' net w1) = Inr d" by simp
  then have "net = Response True (Inr d)"
    by (simp add: fetch_and_persist_def getWaitlistCount_def get_property_def Let_def
        split: fetch_outcome.splits sum.splits if_splits)
  then show ?thesis by simp
next
  case (Some v)
  then obtain w1 where hit: "cache_lookup P now w = (Some v, w1)"
    by (cases "cache_lookup P now w") simp
  then have "queryFn P now now' net w = (Inr v, w1)" by (rule queryFn_hit)
  with assms have "v = d" by simp
  with hit have "\<exists>s u. localStorage w LOCAL_STORAGE_KEY = Some s \<and> JSON_parse P s = Inr u
      \<and> d = JObj [(''count'', read_prop u ''count'')]"
    by (auto simp: cache_lookup_def read_cached_def Let_def
        split: option.splits sum.splits if_splits)
  then show ?thesis by simp
qed

text \<open>
  C8, amended. \<open>queryFn\<close> returns, unvalidated, the count of the stored entry it serves
  or the count the server sent; so whenever the stored entry's count and the server's
  count are non-negative integers, the count it returns is a non-negative integer.
\<close>

theorem returned_count_nonnegative_when_sources_are:
  assumes "queryFn P now now' net w = (Inr d, w')"
    and "\<forall>s v. localStorage w LOCAL_STORAGE_KEY = Some s \<longrightarrow> JSON_parse P s = Inr v \<longrightarrow>
           (\<exists>c. 0 \<le> c \<and> read_prop v ''count'' = JNum (Fin c))"
    and "\<forall>v. net = Response True (Inr v) \<longrightarrow> (\<exists>c. 0 \<le> c \<and> read_prop v ''count'' = JNum (Fin c))"
  shows "\<exists>c. 0 \<le> c \<and> read_prop d ''count'' = JNum (Fin c)"
proof -
  from queryFn_sources [OF assms(1)] show ?thesis
  proof
    assume "\<exists>s v. localStorage w LOCAL_STORAGE_KEY = Some s \<and> JSON_parse P s = Inr v
        \<and> d = JObj [(''count'', read_prop v ''count'')]"
    then obtain s v where "localStorage w LOCAL_STORAGE_KEY = Some s"
      and "JSON_parse P s = Inr v" and d: "d = JObj [(''count'', read_prop v ''count'')]"
      by blast
    with assms(2) obtain c where "0 \<le> c" and "read_prop v ''count'' = JNum (Fin c)"
      by blast
    with d show ?thesis by simp
  next
    assume "net = Response True (Inr d)"
    with assms(3) show ?thesis by blast
  qed
qed

theorem returned_count_nonnegative_when_sources_are_witness:
  "queryFn sample_platform 1000 1001 server_says_50 cache_42_at_0
     = (Inr (JObj [(''count'', JNum (Fin 42))]), cache_42_at_0) \<and>
   (\<exists>c. 0 \<le> c \<and> read_prop (JObj [(''count'', JNum (Fin 42))]) ''count'' = JNum (Fin c))"
proof -
  have q: "queryFn sample_platform 1000 1001 server_says_50 cache_42_at_0
      = (Inr (JObj [(''count'', JNum (Fin 42))]), cache_42_at_0)"
    by (simp add: queryFn_def cache_lookup_def read_cached_def js_minus_def cache_42_at_0_def
        fresh_page_def sample_platform_def sample_parse_def CACHE_DURATION_def
        LOCAL_STORAGE_KEY_def)
  have stored: "\<forall>s v. localStorage cache_42_at_0 LOCAL_STORAGE_KEY = Some s \<longrightarrow>
      JSON_parse sample_platform s = Inr v \<longrightarrow>
      (\<exists>c. 0 \<le> c \<and> read_prop v ''count'' = JNum (Fin c))"
    by (auto simp: cache_42_at_0_def fresh_page_def sample_platform_def sample_parse_def)
  have server: "\<forall>v. server_says_50 = Response True (Inr v) \<longrightarrow>
      (\<exists>c. 0 \<le> c \<and> read_prop v ''count'' = JNum (Fin c))"
    by (auto simp: server_says_50_def)
  from returned_count_nonnegative_when_sources_are [OF q stored server] q
  show ?thesis by blast
qed

subsection \<open>C6: a failed fetch leaves the cache alone\<close>

lemma queryFn_error_keeps_storage:
  assumes "fst (queryFn P now now' net w) = Inl e"
  shows "localStorage (snd (queryFn P now now' net w)) = localStorage w"
proof (cases "cache_lookup P now w")
  case (Pair r w1)
  have w1: "localStorage w1 = localStorage w"
    using cache_lookup_world(1) [of P now w] Pair by simp
  show ?thesis
  proof (cases r)
    case None
    then have q: "queryFn P now now' net w = fetch_and_persist P now' net w1"
      using Pair by (simp add: queryFn_miss)
    with assms have "fst (fetch_and_persist P now' net w1) = Inl e" by simp
    then show ?thesis
      by (simp add: q fetch_and_persist_storage w1)
  next
    case (Some v)
    then have "queryFn P now now' net w = (Inr v, w1)"
      using Pair by (simp add: queryFn_hit)
    with assms show ?thesis by simp
  qed
qed

text \<open>
  C6. When the network rejects the request or answers with a status that is not 2xx,
  \<open>queryFn\<close> leaves \<open>localStorage\<close> exactly as it was, and, unless a fresh entry
  was served without any request, it fails: with the network's error, or with
  \<^verbatim>\<open>Error("Failed to get waitlist count")\<close>.
\<close>

theorem failed_fetch_leaves_cache:
  assumes "net = Rejected e \<or> net = Response False body"
  shows "localStorage (snd (queryFn P now now' net w)) = localStorage w
    \<and> (fst (cache_lookup P now w) = None \<longrightarrow>
         fst (queryFn P now now' net w)
           = Inl (case net of
                    Rejected x \<Rightarrow> x
                  | Response ok b \<Rightarrow> Error ''Failed to get waitlist count''))"
proof (cases "cache_lookup P now w")
  case (Pair r w1)
  have w1: "localStorage w1 = localStorage w"
    using cache_lookup_world(1) [of P now w] Pair by simp
  let ?err = "case net of Rejected x \<Rightarrow> x | Response ok b \<Rightarrow> Error ''Failed to get waitlist count''"
  show ?thesis
  proof (cases r)
    case None
    have "fst (getWaitlistCount net w1) = Inl ?err"
      using assms by (auto simp: getWaitlistCount_result)
    then have "fetch_and_persist P now' net w1
        = (Inl ?err, emit (Fetch ''/api/waitlist/count'' ''GET'' None) w1)"
      by (rule fetch_and_persist_failed)
    moreover have "queryFn P now now' net w = fetch_and_persist P now' net w1"
      using Pair None by (simp add: queryFn_miss)
    ultimately show ?thesis by (simp add: w1)
  next
    case (Some v)
    then have "queryFn P now now' net w = (Inr v, w1)"
      using Pair by (simp add: queryFn_hit)
    then show ?thesis using Pair Some by (simp add: w1)
  qed
qed

theorem failed_fetch_leaves_cache_witness:
  "fst (cache_lookup sample_platform 1000 cache_garbage) = None \<and>
   localStorage (snd (queryFn sample_platform 1000 1001 (Response False (Inl [])) cache_garbage))
     = localStorage cache_garbage \<and>
   fst (queryFn sample_platform 1000 1001 (Response False (Inl [])) cache_garbage)
     = Inl (Error ''Failed to get waitlist count'')"
proof -
  have miss: "fst (cache_lookup sample_platform 1000 cache_garbage) = None"
    by (simp add: cache_lookup_def read_cached_def cache_garbage_def fresh_page_def
        sample_platform_def sample_parse_def LOCAL_STORAGE_KEY_def)
  from failed_fetch_leaves_cache
    [of "Response False (Inl [])" NonError "Inl []" sample_platform 1000 1001 cache_garbage] miss
  show ?thesis by simp
qed


subsection \<open>The mutation and the effect\<close>

lemma joinWaitlist_world:
  "snd (joinWaitlist P email net w) =
     emit (Fetch ''/api/waitlist/join'' ''POST''
             (Some (JSON_stringify P (JObj [(''email'', JStr email)])))) w"
  by (simp add: joinWaitlist_def Let_def split: fetch_outcome.splits sum.splits option.splits)

lemma joinWaitlist_ok:
  "fst (joinWaitlist P email (Response True body) w) = Inr ()"
  by (simp add: joinWaitlist_def)

lemma joinWaitlist_failed:
  assumes "net = Rejected e \<or> net = Response False body"
  shows "\<exists>err. fst (joinWaitlist P email net w) = Inl err"
  using assms
  by (auto simp: joinWaitlist_def get_property_def Let_def split: sum.splits option.splits)

lemma joinWaitlist_message:
  assumes "\<not> nullish errorData"
  shows "fst (joinWaitlist P email (Response False (Inr errorData)) w)
     = Inl (Error
         (case ToString P (js_or (read_prop errorData ''error'') (JStr ''Failed to join waitlist'')) of
            None \<Rightarrow> TypeError_message P
          | Some message \<Rightarrow> message))"
  using assms by (simp add: joinWaitlist_def get_property_def split: option.splits)

lemma joinWaitlist_unparsed:
  "fst (joinWaitlist P email (Response False (Inl m)) w)
     = Inl (Error ''Failed to join waitlist'')"
  by (simp add: joinWaitlist_def get_property_def js_or_def)

lemma mutate_failed:
  assumes "fst (joinWaitlist P email net w) = Inl err"
  shows "mutate P email net now w = onError err (snd (joinWaitlist P email net w))"
  using assms by (cases "joinWaitlist P email net w") (simp add: mutate_def)

lemma onError_fields [simp]:
  "localStorage (onError err w) = localStorage w"
  "query_data (onError err w) = query_data w"
  "success (onError err w) = success w"
  "localSuccess (onError err w) = localSuccess w"
  by (simp_all add: onError_def)

lemma onError_Error:
  "events (onError (Error m) w) = events w @ [ToastError m]"
  by (simp add: onError_def)

lemma submit_failed:
  assumes "fst (joinWaitlist P email net w) = Inl err"
  shows "submit P email net now w = onError err (snd (joinWaitlist P email net w))"
  using assms by (simp add: submit_def mutate_failed joinWaitlist_world)

lemma js_plus_one:
  assumes "\<bar>n\<bar> < 2 ^ 53"
  shows "js_plus P (JNum (Fin n)) (JNum (Fin 1)) = Inr (JNum (Fin (n + 1)))"
proof -
  from assms have "exact_integer n" and "exact_integer (n + 1)" and "exact_integer 1"
    by (simp_all add: exact_integer_def)
  then show ?thesis
    by (simp add: js_plus_def)
qed

lemma onSuccess_fields:
  assumes "waitlist_count w = JNum (Fin n)" and "\<bar>n\<bar> < 2 ^ 53"
  shows "fst (onSuccess P now w) = Inr ()"
    and "query_data (snd (onSuccess P now w)) = JObj [(''count'', JNum (Fin (n + 1)))]"
    and "localSuccess (snd (onSuccess P now w)) = localSuccess w"
    and "localStorage (snd (onSuccess P now w))
           = (localStorage w)(LOCAL_STORAGE_KEY \<mapsto>
               JSON_stringify P
                 (JObj [(''count'', JNum (Fin (n + 1))), (''timestamp'', JNum (Fin now))]))"
    and "events (snd (onSuccess P now w)) = events w @ [ConfettiBurst, ToastSuccess]"
  using assms js_plus_one [OF assms(2), of P]
  by (simp_all add: onSuccess_def waitlist_count_def Let_def)

lemma onSuccess_keeps_other_keys:
  "k \<noteq> LOCAL_STORAGE_KEY \<Longrightarrow> localStorage (snd (onSuccess P now w)) k = localStorage w k"
  by (simp add: onSuccess_def Let_def split: sum.splits)

lemma onSuccess_success: "success (snd (onSuccess P now w))"
  by (simp add: onSuccess_def Let_def split: sum.splits)

lemma mutate_ok:
  assumes "fst (onSuccess P now (snd (joinWaitlist P email (Response True body) w))) = Inr ()"
  shows "mutate P email (Response True body) now w
     = snd (onSuccess P now (snd (joinWaitlist P email (Response True body) w)))"
  using assms joinWaitlist_ok [of P email body w]
  by (cases "joinWaitlist P email (Response True body) w";
      cases "onSuccess P now (snd (joinWaitlist P email (Response True body) w))")
     (simp add: mutate_def)

lemma mutate_ok_success: "success (mutate P email (Response True body) now w)"
  using joinWaitlist_ok [of P email body w]
    onSuccess_success [of P now "snd (joinWaitlist P email (Response True body) w)"]
  by (cases "joinWaitlist P email (Response True body) w";
      cases "onSuccess P now (snd (joinWaitlist P email (Response True body) w))")
     (auto simp: mutate_def split: sum.splits)

lemma waitlist_count_cong:
  "query_data w' = query_data w \<Longrightarrow> waitlist_count w' = waitlist_count w"
  by (simp add: waitlist_count_def)

lemma useEffect_fields [simp]:
  "query_data (useEffect w) = query_data w"
  "success (useEffect w) = success w"
  "events (useEffect w) = events w"
  by (simp_all add: useEffect_def split: option.splits)

lemma useEffect_count_key [simp]:
  "localStorage (useEffect w) LOCAL_STORAGE_KEY = localStorage w LOCAL_STORAGE_KEY"
  by (simp add: useEffect_def LOCAL_STORAGE_KEY_def split: option.splits)

lemma useEffect_after_success:
  "success w \<Longrightarrow> SuccessFlag (useEffect w) \<and> localSuccess (useEffect w)"
  by (simp add: useEffect_def SuccessFlag_def)

lemma useEffect_keeps_flag: "SuccessFlag w \<Longrightarrow> SuccessFlag (useEffect w)"
  by (simp add: useEffect_def SuccessFlag_def)

lemma SuccessFlag_cong:
  "localStorage w' ''waitlist_success'' = localStorage w ''waitlist_success''
     \<Longrightarrow> SuccessFlag w' = SuccessFlag w"
  by (simp add: SuccessFlag_def)

lemma flag_key_differs: "''waitlist_success'' \<noteq> LOCAL_STORAGE_KEY"
  by (simp add: LOCAL_STORAGE_KEY_def)

lemma mutate_keeps_flag_key:
  "localStorage (mutate P email net now w) ''waitlist_success''
     = localStorage w ''waitlist_success''"
proof (cases "joinWaitlist P email net w")
  case (Pair r w1)
  have w1: "w1 = emit (Fetch ''/api/waitlist/join'' ''POST''
             (Some (JSON_stringify P (JObj [(''email'', JStr email)])))) w"
    using joinWaitlist_world [of P email net w] Pair by simp
  show ?thesis
  proof (cases r)
    case (Inl e)
    then show ?thesis using Pair w1 by (simp add: mutate_def)
  next
    case (Inr u)
    have "localStorage (snd (onSuccess P now w1)) ''waitlist_success''
        = localStorage w ''waitlist_success''"
      using onSuccess_keeps_other_keys [OF flag_key_differs, of P now w1] w1 by simp
    then show ?thesis
      using Pair Inr
      by (cases "onSuccess P now w1") (auto simp: mutate_def split: sum.splits)
  qed
qed

lemma queryFn_keeps_flag_key:
  "localStorage (snd (queryFn P now now' net w)) ''waitlist_success''
     = localStorage w ''waitlist_success''"
proof (cases "cache_lookup P now w")
  case (Pair r w1)
  have w1: "localStorage w1 = localStorage w"
    using cache_lookup_world(1) [of P now w] Pair by simp
  show ?thesis
  proof (cases r)
    case None
    then have "queryFn P now now' net w = fetch_and_persist P now' net w1"
      using Pair by (simp add: queryFn_miss)
    then show ?thesis
      by (simp add: fetch_and_persist_storage w1 flag_key_differs split: sum.splits)
  next
    case (Some v)
    then have "queryFn P now now' net w = (Inr v, w1)"
      using Pair by (simp add: queryFn_hit)
    then show ?thesis by (simp add: w1)
  qed
qed

lemma queryFn_keeps_success:
  "success (snd (queryFn P now now' net w)) = success w"
proof (cases "cache_lookup P now w")
  case (Pair r w1)
  have w1: "success w1 = success w"
    using cache_lookup_world(3) [of P now w] Pair by simp
  show ?thesis
    using Pair by (cases r) (simp_all add: queryFn_def fetch_and_persist_memory w1)
qed

lemma useQuery_keeps:
  "localStorage (useQuery P now now' net w) ''waitlist_success''
     = localStorage w ''waitlist_success''"
  "success (useQuery P now now' net w) = success w"
  using queryFn_keeps_flag_key [of P now now' net w] queryFn_keeps_success [of P now now' net w]
  by (cases "queryFn P now now' net w"; simp add: useQuery_def split: sum.splits)+

lemma submit_keeps_flag:
  assumes "SuccessFlag w"
  shows "SuccessFlag (submit P email net now w)"
proof -
  have "SuccessFlag (mutate P email net now w)"
    using assms SuccessFlag_cong [OF mutate_keeps_flag_key [of P email net now w]] by simp
  then show ?thesis
    by (simp add: submit_def Let_def useEffect_keeps_flag)
qed

lemma step_keeps_flag: "SuccessFlag w \<Longrightarrow> SuccessFlag (step P w a)"
proof (cases a)
  case Load
  assume "SuccessFlag w"
  then show ?thesis
    using Load by (simp add: load_def useEffect_def SuccessFlag_def)
next
  case (GetCount now now' net)
  assume "SuccessFlag w"
  then show ?thesis
    using GetCount useQuery_keeps(1) [of P now now' net w] by (simp add: SuccessFlag_def)
next
  case (Submit email net now)
  assume "SuccessFlag w"
  then show ?thesis
    using Submit by (simp add: submit_keeps_flag)
qed

lemma run_keeps_flag: "SuccessFlag w \<Longrightarrow> SuccessFlag (run P acts w)"
  unfolding run_def
  by (induction acts arbitrary: w) (simp_all add: step_keeps_flag)

lemma load_restores: "SuccessFlag w \<Longrightarrow> localSuccess (load w)"
  by (simp add: load_def useEffect_def SuccessFlag_def)

text \<open>
  In every state that React has rendered, a true \<open>success\<close> has already been persisted
  by the effect: the page load establishes this and every operation keeps it.
\<close>

lemma load_rendered: "success (load w) \<longrightarrow> SuccessFlag (load w)"
  by (simp add: load_def)

lemma step_rendered:
  assumes "success w \<longrightarrow> SuccessFlag w"
  shows "success (step P w a) \<longrightarrow> SuccessFlag (step P w a)"
proof (cases a)
  case Load
  then show ?thesis by (simp add: load_rendered)
next
  case (GetCount now now' net)
  then show ?thesis
    using assms useQuery_keeps [of P now now' net w] by (simp add: SuccessFlag_def)
next
  case (Submit email net now)
  show ?thesis
  proof (cases "success w")
    case True
    with assms have "SuccessFlag w" by simp
    then show ?thesis using Submit by (simp add: submit_keeps_flag)
  next
    case False
    then show ?thesis
      using Submit by (auto simp: submit_def Let_def useEffect_after_success)
  qed
qed


lemma run_rendered:
  assumes "success w \<longrightarrow> SuccessFlag w"
  shows "success (run P acts w) \<longrightarrow> SuccessFlag (run P acts w)"
  using assms unfolding run_def
proof (induction acts arbitrary: w)
  case Nil
  then show ?case by simp
next
  case (Cons a acts)
  from Cons.prems have "success (step P w a) \<longrightarrow> SuccessFlag (step P w a)"
    by (rule step_rendered)
  then show ?case
    using Cons.IH [of "step P w a"] by simp
qed

subsection \<open>C4: a failed submission changes nothing\<close>

text \<open>
  C4. When \<^verbatim>\<open>joinWaitlist\<close> fails (the network rejects the request, or the status is
  not 2xx), the submission leaves the whole \<open>localStorage\<close> (cached count and
  SuccessFlag), the displayed count and the in-memory state as they were; it only sends
  the request and shows one error toast.
\<close>

theorem failed_submit_changes_nothing:
  assumes "net = Rejected e \<or> net = Response False body"
  shows "localStorage (submit P email net now w) = localStorage w
    \<and> waitlist_count (submit P email net now w) = waitlist_count w
    \<and> SuccessFlag (submit P email net now w) = SuccessFlag w
    \<and> query_data (submit P email net now w) = query_data w
    \<and> success (submit P email net now w) = success w
    \<and> localSuccess (submit P email net now w) = localSuccess w
    \<and> (\<exists>msg. events (submit P email net now w)
           = events w @ [Fetch ''/api/waitlist/join'' ''POST''
                           (Some (JSON_stringify P (JObj [(''email'', JStr email)]))),
                         ToastError msg])"
proof -
  from joinWaitlist_failed [OF assms] obtain err
    where err: "fst (joinWaitlist P email net w) = Inl err" by blast
  have s: "submit P email net now w = onError err (snd (joinWaitlist P email net w))"
    using err by (rule submit_failed)
  have storage: "localStorage (submit P email net now w) = localStorage w"
    and data: "query_data (submit P email net now w) = query_data w"
    and "success (submit P email net now w) = success w"
    and "localSuccess (submit P email net now w) = localSuccess w"
    by (simp_all add: s joinWaitlist_world)
  moreover have "waitlist_count (submit P email net now w) = waitlist_count w"
    using data by (rule waitlist_count_cong)
  moreover have "SuccessFlag (submit P email net now w) = SuccessFlag w"
    using storage by (simp add: SuccessFlag_def)
  moreover have "\<exists>msg. events (submit P email net now w)
      = events w @ [Fetch ''/api/waitlist/join'' ''POST''
                      (Some (JSON_stringify P (JObj [(''email'', JStr email)]))),
                    ToastError msg]"
    by (simp add: s joinWaitlist_world onError_def)
  ultimately show ?thesis by blast
qed

theorem failed_submit_changes_nothing_witness:
  \<open>localStorage (submit sample_platform ''a@b.com''
       (Response False (Inr (JObj [(''error'', JStr ''already joined'')]))) 1000 cache_42_at_0)
     LOCAL_STORAGE_KEY = Some ''{"count":42,"timestamp":0}'' \<and>
   waitlist_count (submit sample_platform ''a@b.com''
       (Response False (Inr (JObj [(''error'', JStr ''already joined'')]))) 1000 cache_42_at_0)
     = JNum (Fin 0) \<and>
   \<not> SuccessFlag (submit sample_platform ''a@b.com''
       (Response False (Inr (JObj [(''error'', JStr ''already joined'')]))) 1000 cache_42_at_0)\<close>
  using failed_submit_changes_nothing
    [of "Response False (Inr (JObj [(''error'', JStr ''already joined'')]))" NonError
        "Inr (JObj [(''error'', JStr ''already joined'')])" sample_platform "''a@b.com''" 1000
        cache_42_at_0]
  by (simp add: cache_42_at_0_def fresh_page_def waitlist_count_def opt_chain_def
      js_coalesce_def SuccessFlag_def LOCAL_STORAGE_KEY_def)

subsection \<open>C5: the text of the error toast\<close>

text \<open>
  The message is \<^verbatim>\<open>errorData.error || "Failed to join waitlist"\<close>: an empty
  \<^verbatim>\<open>error\<close> string is falsy, so the body \<^verbatim>\<open>{"error":""}\<close> yields the generic
  message and not the string of the body.
\<close>

theorem empty_error_string_replaced:
  \<open>events (submit sample_platform ''a@b.com'' (Response False (Inr (JObj [(''error'', JStr [])])))
      1000 blank_page)
     = [Fetch ''/api/waitlist/join'' ''POST'' (Some ''{"email":"a@b.com"}''),
        ToastError ''Failed to join waitlist''] \<and>
   ''Failed to join waitlist'' \<noteq> ([] :: string)\<close>
  by (simp add: submit_def mutate_def joinWaitlist_def get_property_def js_or_def onError_def
      blank_page_def fresh_page_def sample_platform_def sample_stringify_def emit_def)

text \<open>
  C5, amended. When the submission fails with a status that is not 2xx and the body is an
  object whose \<^verbatim>\<open>error\<close> field is a non-empty string, the error toast shows exactly
  that string; when the object has no \<^verbatim>\<open>error\<close> field or an empty one, or the body
  cannot be parsed, the toast shows \<^verbatim>\<open>Failed to join waitlist\<close>.
\<close>

theorem join_error_toast:
  "(map_of kvs ''error'' = Some (JStr err) \<and> err \<noteq> [] \<longrightarrow>
      events (submit P email (Response False (Inr (JObj kvs))) now w)
        = events w @ [Fetch ''/api/waitlist/join'' ''POST''
                        (Some (JSON_stringify P (JObj [(''email'', JStr email)]))),
                      ToastError err])
   \<and> (map_of kvs ''error'' = None \<or> map_of kvs ''error'' = Some (JStr []) \<longrightarrow>
      events (submit P email (Response False (Inr (JObj kvs))) now w)
        = events w @ [Fetch ''/api/waitlist/join'' ''POST''
                        (Some (JSON_stringify P (JObj [(''email'', JStr email)]))),
                      ToastError ''Failed to join waitlist''])
   \<and> events (submit P email (Response False (Inl m)) now w)
        = events w @ [Fetch ''/api/waitlist/join'' ''POST''
                        (Some (JSON_stringify P (JObj [(''email'', JStr email)]))),
                      ToastError ''Failed to join waitlist'']"
proof -
  let ?sent = "Fetch ''/api/waitlist/join'' ''POST''
      (Some (JSON_stringify P (JObj [(''email'', JStr email)])))"
  have shown: "events (submit P email net now w) = events w @ [?sent, ToastError msg]"
    if "fst (joinWaitlist P email net w) = Inl (Error msg)" for net msg
    using submit_failed [OF that] by (simp add: joinWaitlist_world onError_Error)
  have verbatim: "events (submit P email (Response False (Inr (JObj kvs))) now w)
      = events w @ [?sent, ToastError err]"
    if "map_of kvs ''error'' = Some (JStr err)" and "err \<noteq> []"
    using that by (intro shown) (simp add: joinWaitlist_message js_or_def)
  have generic: "events (submit P email (Response False (Inr (JObj kvs))) now w)
      = events w @ [?sent, ToastError ''Failed to join waitlist'']"
    if "map_of kvs ''error'' = None \<or> map_of kvs ''error'' = Some (JStr [])"
    using that by (intro shown) (auto simp: joinWaitlist_message js_or_def)
  have unparsed: "events (submit P email (Response False (Inl m)) now w)
      = events w @ [?sent, ToastError ''Failed to join waitlist'']"
    by (intro shown) (rule joinWaitlist_unparsed)
  from verbatim generic unparsed show ?thesis by blast
qed

theorem join_error_toast_witness:
  \<open>events (submit sample_platform ''a@b.com''
       (Response False (Inr (JObj [(''error'', JStr ''already joined'')]))) 1000
       blank_page)
     = [Fetch ''/api/waitlist/join'' ''POST'' (Some ''{"email":"a@b.com"}''),
        ToastError ''already joined'']\<close>
  using join_error_toast
    [where kvs = "[(''error'', JStr ''already joined'')]" and err = "''already joined''"
       and P = sample_platform and email = "''a@b.com''" and now = 1000
       and w = blank_page and m = "[]"]
  by (simp add: blank_page_def fresh_page_def sample_platform_def sample_stringify_def)

subsection \<open>C9: the SuccessFlag is permanent and restores the submitted state\<close>

lemma load_reads_flag: "localSuccess (load w) = SuccessFlag w"
  by (simp add: load_def useEffect_def SuccessFlag_def split: option.splits)

text \<open>
  C9. Once the SuccessFlag is stored as true, it stays true through every sequence of
  page loads, count queries and submissions (whatever the clock and the network give
  them). Every page load reads it: after a load, \<open>localSuccess\<close>, which shows the
  submitted state, is true exactly when the stored flag is, so the submitted state is
  restored after any such sequence, and is not shown when the flag is not stored.
\<close>

theorem SuccessFlag_permanent_and_restored:
  assumes "SuccessFlag w"
  shows "SuccessFlag (run P acts w)
    \<and> localSuccess (load (run P acts w))
    \<and> (\<forall>v. localSuccess (load v) = SuccessFlag v)
    \<and> (\<forall>v. localStorage (load v) = localStorage v)"
proof -
  have "SuccessFlag (run P acts w)"
    using assms by (rule run_keeps_flag)
  moreover have "localStorage (load v) = localStorage v" for v
    by (simp add: load_def useEffect_def split: option.splits)
  ultimately show ?thesis
    by (simp add: load_reads_flag)
qed

theorem SuccessFlag_permanent_and_restored_witness:
  "SuccessFlag already_joined \<and>
   SuccessFlag (run sample_platform
      [GetCount 1000 1001 server_says_50, Submit ''a@b.com'' (Rejected NonError) 2000, Load,
       Submit ''a@b.com'' (Response True (Inl [])) 3000]
      already_joined) \<and>
   localSuccess (load (run sample_platform
      [GetCount 1000 1001 server_says_50, Submit ''a@b.com'' (Rejected NonError) 2000, Load,
       Submit ''a@b.com'' (Response True (Inl [])) 3000]
      already_joined)) \<and>
   \<not> SuccessFlag blank_page \<and>
   \<not> localSuccess (load blank_page)"
proof -
  have flag: "SuccessFlag already_joined"
    by (simp add: SuccessFlag_def already_joined_def fresh_page_def)
  have none: "\<not> SuccessFlag blank_page"
    by (simp add: SuccessFlag_def blank_page_def fresh_page_def)
  from SuccessFlag_permanent_and_restored [OF flag] flag none show ?thesis by blast
qed

subsection \<open>C10: no data is displayed as 0, and a first success makes it 1\<close>

lemma no_data_count: "query_data w = JUndefined \<Longrightarrow> waitlist_count w = JNum (Fin 0)"
  by (simp add: waitlist_count_def opt_chain_def js_coalesce_def)

lemma submit_ok_count:
  assumes "waitlist_count w = JNum (Fin n)" and "\<bar>n\<bar> < 2 ^ 53"
  shows "waitlist_count (submit P email (Response True body) now w) = JNum (Fin (n + 1))"
    and "localStorage (submit P email (Response True body) now w) LOCAL_STORAGE_KEY
           = Some (JSON_stringify P
               (JObj [(''count'', JNum (Fin (n + 1))), (''timestamp'', JNum (Fin now))]))"
    and "events (submit P email (Response True body) now w)
           = events w @ [Fetch ''/api/waitlist/join'' ''POST''
                           (Some (JSON_stringify P (JObj [(''email'', JStr email)]))),
                         ConfettiBurst, ToastSuccess]"
proof -
  let ?w1 = "snd (joinWaitlist P email (Response True body) w)"
  let ?w2 = "snd (onSuccess P now ?w1)"
  have c: "waitlist_count ?w1 = JNum (Fin n)"
    using assms(1) by (simp add: joinWaitlist_world waitlist_count_def)
  note ok = onSuccess_fields [OF c assms(2), of P now]
  have m: "mutate P email (Response True body) now w = ?w2"
    using ok(1) by (rule mutate_ok)
  have "query_data (submit P email (Response True body) now w)
      = JObj [(''count'', JNum (Fin (n + 1)))]"
    by (simp add: submit_def Let_def m ok(2))
  then show "waitlist_count (submit P email (Response True body) now w) = JNum (Fin (n + 1))"
    by (simp add: waitlist_count_def opt_chain_def js_coalesce_def)
  show "localStorage (submit P email (Response True body) now w) LOCAL_STORAGE_KEY
      = Some (JSON_stringify P
          (JObj [(''count'', JNum (Fin (n + 1))), (''timestamp'', JNum (Fin now))]))"
    by (simp add: submit_def Let_def m ok(4))
  show "events (submit P email (Response True body) now w)
      = events w @ [Fetch ''/api/waitlist/join'' ''POST''
                      (Some (JSON_stringify P (JObj [(''email'', JStr email)]))),
                    ConfettiBurst, ToastSuccess]"
  proof -
    have "events ?w1 = events w @ [Fetch ''/api/waitlist/join'' ''POST''
        (Some (JSON_stringify P (JObj [(''email'', JStr email)])))]"
      by (simp add: joinWaitlist_world)
    with ok(5) show ?thesis
      by (simp add: submit_def Let_def m)
  qed
qed

lemma useQuery_failed_keeps_data:
  "fst (queryFn P t t' net w) = Inl e \<Longrightarrow> query_data (useQuery P t t' net w) = query_data w"
proof (cases "cache_lookup P t w")
  case (Pair r w1)
  assume failed: "fst (queryFn P t t' net w) = Inl e"
  have w1: "query_data w1 = query_data w"
    using cache_lookup_world(2) [of P t w] Pair by simp
  show ?thesis
  proof (cases r)
    case None
    then have q: "queryFn P t t' net w = fetch_and_persist P t' net w1"
      using Pair by (simp add: queryFn_miss)
    show ?thesis
      using failed fetch_and_persist_memory(1) [of P t' net w1]
      by (cases "fetch_and_persist P t' net w1") (simp add: useQuery_def q w1)
  next
    case (Some v)
    then have "queryFn P t t' net w = (Inr v, w1)"
      using Pair by (simp add: queryFn_hit)
    with failed show ?thesis by simp
  qed
qed

text \<open>
  C10. While \<^verbatim>\<open>query.data\<close> is \<^verbatim>\<open>undefined\<close>, as it is after a page load and still
  is after a count query that failed, the displayed count is 0, and a submission that
  succeeds then sets the displayed count to 1 and stores the count 1 with the timestamp
  of the submission.
\<close>

theorem no_data_shows_zero_then_one:
  "waitlist_count (load w0) = JNum (Fin 0)
   \<and> (fst (queryFn P t t' net (load w0)) = Inl e \<longrightarrow>
        waitlist_count (useQuery P t t' net (load w0)) = JNum (Fin 0))
   \<and> (query_data w = JUndefined \<longrightarrow>
        waitlist_count w = JNum (Fin 0)
        \<and> waitlist_count (submit P email (Response True body) now w) = JNum (Fin 1)
        \<and> localStorage (submit P email (Response True body) now w) LOCAL_STORAGE_KEY
            = Some (JSON_stringify P
                (JObj [(''count'', JNum (Fin 1)), (''timestamp'', JNum (Fin now))])))"
proof -
  have loaded: "query_data (load w0) = JUndefined"
    by (simp add: load_def)
  then have a: "waitlist_count (load w0) = JNum (Fin 0)"
    by (rule no_data_count)
  have b: "waitlist_count (useQuery P t t' net (load w0)) = JNum (Fin 0)"
    if "fst (queryFn P t t' net (load w0)) = Inl e"
    using useQuery_failed_keeps_data [OF that] loaded by (simp add: no_data_count)
  have c: "waitlist_count w = JNum (Fin 0)
      \<and> waitlist_count (submit P email (Response True body) now w) = JNum (Fin 1)
      \<and> localStorage (submit P email (Response True body) now w) LOCAL_STORAGE_KEY
          = Some (JSON_stringify P
              (JObj [(''count'', JNum (Fin 1)), (''timestamp'', JNum (Fin now))]))"
    if "query_data w = JUndefined"
    using submit_ok_count(1,2) [OF no_data_count [OF that], of P email body now]
      no_data_count [OF that]
    by simp
  from a b c show ?thesis by blast
qed

theorem no_data_shows_zero_then_one_witness:
  \<open>query_data blank_page = JUndefined \<and>
   waitlist_count blank_page = JNum (Fin 0) \<and>
   waitlist_count (submit sample_platform ''a@b.com'' (Response True (Inl [])) 1000
      blank_page) = JNum (Fin 1) \<and>
   localStorage (submit sample_platform ''a@b.com'' (Response True (Inl [])) 1000
      blank_page) LOCAL_STORAGE_KEY = Some ''{"count":1,"timestamp":1000}''\<close>
  using no_data_shows_zero_then_one
    [where w = blank_page and P = sample_platform and email = "''a@b.com''"
       and body = "Inl []" and now = 1000 and ?w0.0 = blank_page and t = 0
       and t' = 0 and net = "Rejected NonError" and e = NonError]
  by (simp add: blank_page_def fresh_page_def sample_platform_def sample_stringify_def)

subsection \<open>C1: a successful submission\<close>

text \<open>
  Line 91 applies \<^verbatim>\<open>+ 1\<close> to whatever count is displayed. A fresh stored entry
  \<^verbatim>\<open>{"count":"5","timestamp":0}\<close> is served as it is, the page displays the string
  \<^verbatim>\<open>5\<close>, and a successful submission then displays the string \<^verbatim>\<open>51\<close>.
\<close>

theorem string_count_is_concatenated:
  "waitlist_count (useQuery sample_platform 1000 1001 server_says_50 cache_string_5)
     = JStr ''5'' \<and>
   waitlist_count
     (submit sample_platform ''a@b.com'' (Response True (Inl [])) 2000
        (useQuery sample_platform 1000 1001 server_says_50 cache_string_5))
     = JStr ''51''"
  by (simp add: useQuery_def queryFn_def cache_lookup_def read_cached_def js_minus_def
      cache_string_5_def fresh_page_def sample_platform_def sample_parse_def
      CACHE_DURATION_def LOCAL_STORAGE_KEY_def waitlist_count_def opt_chain_def
      js_coalesce_def submit_def mutate_def joinWaitlist_def onSuccess_def js_plus_def
      emit_def setItem_def useEffect_def Let_def)

text \<open>
  C1, amended. When \<^verbatim>\<open>joinWaitlist\<close> succeeds in a rendered state that displays an
  integer count \<open>n\<close> with \<open>\<bar>n\<bar> < 2^53\<close>, the submission displays \<open>n + 1\<close>, stores
  that count with the timestamp of the submission, sends no other request than the join
  request (the server's count is not fetched again), and stores the SuccessFlag as true,
  so that it is true, and \<open>localSuccess\<close> is restored from it, at every later page load.
\<close>

theorem successful_submit_increments_and_persists:
  assumes "waitlist_count w = JNum (Fin n)"
    and "\<bar>n\<bar> < 2 ^ 53"
    and "success w \<longrightarrow> SuccessFlag w"
  shows "waitlist_count (submit P email (Response True body) now w) = JNum (Fin (n + 1))
    \<and> localStorage (submit P email (Response True body) now w) LOCAL_STORAGE_KEY
        = Some (JSON_stringify P
            (JObj [(''count'', JNum (Fin (n + 1))), (''timestamp'', JNum (Fin now))]))
    \<and> events (submit P email (Response True body) now w)
        = events w @ [Fetch ''/api/waitlist/join'' ''POST''
                        (Some (JSON_stringify P (JObj [(''email'', JStr email)]))),
                      ConfettiBurst, ToastSuccess]
    \<and> SuccessFlag (submit P email (Response True body) now w)
    \<and> (\<forall>acts. SuccessFlag (run P acts (submit P email (Response True body) now w))
          \<and> localSuccess (load (run P acts (submit P email (Response True body) now w))))"
proof -
  let ?w' = "submit P email (Response True body) now w"
  have succeeded: "success (mutate P email (Response True body) now w)"
    by (rule mutate_ok_success)
  have flag: "SuccessFlag ?w'"
  proof (cases "success w")
    case True
    with assms(3) have "SuccessFlag w" by simp
    then show ?thesis by (rule submit_keeps_flag)
  next
    case False
    with succeeded show ?thesis
      by (simp add: submit_def Let_def useEffect_after_success)
  qed
  have later: "SuccessFlag (run P acts ?w') \<and> localSuccess (load (run P acts ?w'))" for acts
    using run_keeps_flag [OF flag, of P acts] by (simp add: load_restores)
  from submit_ok_count [OF assms(1,2), of P email body now] flag later
  show ?thesis by blast
qed

theorem successful_submit_increments_and_persists_witness:
  \<open>waitlist_count showing_42 = JNum (Fin 42) \<and>
   \<bar>42 :: int\<bar> < 2 ^ 53 \<and>
   waitlist_count (submit sample_platform ''a@b.com'' (Response True (Inl [])) 1000
      showing_42)
     = JNum (Fin 43) \<and>
   localStorage (submit sample_platform ''a@b.com'' (Response True (Inl [])) 1000
      showing_42)
     LOCAL_STORAGE_KEY = Some ''{"count":43,"timestamp":1000}'' \<and>
   SuccessFlag (submit sample_platform ''a@b.com'' (Response True (Inl [])) 1000
      showing_42) \<and>
   localSuccess (load (submit sample_platform ''a@b.com'' (Response True (Inl [])) 1000
      showing_42))\<close>
proof -
  let ?w = showing_42
  have shown: "waitlist_count ?w = JNum (Fin 42)"
    by (simp add: waitlist_count_def opt_chain_def js_coalesce_def showing_42_def)
  have small: "\<bar>42 :: int\<bar> < 2 ^ 53"
    by simp
  have rendered: "success ?w \<longrightarrow> SuccessFlag ?w"
    by (simp add: showing_42_def blank_page_def fresh_page_def)
  from successful_submit_increments_and_persists
    [OF shown small rendered, of sample_platform "''a@b.com''" "Inl []" 1000]
  have "waitlist_count (submit sample_platform ''a@b.com'' (Response True (Inl [])) 1000 ?w)
      = JNum (Fin 43)"
    and "localStorage (submit sample_platform ''a@b.com'' (Response True (Inl [])) 1000 ?w)
      LOCAL_STORAGE_KEY
      = Some (JSON_stringify sample_platform
          (JObj [(''count'', JNum (Fin 43)), (''timestamp'', JNum (Fin 1000))]))"
    and "SuccessFlag (submit sample_platform ''a@b.com'' (Response True (Inl [])) 1000 ?w)"
    and "\<forall>acts. SuccessFlag (run sample_platform acts
            (submit sample_platform ''a@b.com'' (Response True (Inl [])) 1000 ?w))
        \<and> localSuccess (load (run sample_platform acts
            (submit sample_platform ''a@b.com'' (Response True (Inl [])) 1000 ?w)))"
    by simp_all
  moreover from this(4)
  have "localSuccess (load (run sample_platform []
      (submit sample_platform ''a@b.com'' (Response True (Inl [])) 1000 ?w)))"
    by blast
  ultimately show ?thesis
    using shown by (simp add: run_def sample_platform_def sample_stringify_def)
qed

end
